theory Spec2Isabelle
  imports Main
begin

section \<open>Errors\<close>

text \<open>
  The store's client answers with API status errors; \<open>errors.New\<close> and \<open>errors.Wrap\<close>
  of github.com/pkg/errors build the others. \<open>errors.Wrap\<close> of a nil error is nil.
  \<open>kerrors.IsNotFound\<close> holds of a status error whose reason is NotFound.
\<close>

datatype StatusReason = StatusReasonNotFound | StatusReasonConflict
  | StatusReasonAlreadyExists | StatusReasonUnknown string

datatype error = StatusError StatusReason | New string | Wrap error string

fun IsNotFound :: "error \<Rightarrow> bool" where
  "IsNotFound (StatusError r) = (r = StatusReasonNotFound)"
| "IsNotFound (New msg) = False"
| "IsNotFound (Wrap err msg) = False"

fun errors_Wrap :: "error option \<Rightarrow> string \<Rightarrow> error option" where
  "errors_Wrap None msg = None"
| "errors_Wrap (Some err) msg = Some (Wrap err msg)"

definition errGetSecret :: string where
  "errGetSecret = ''cannot get managed resource's connection secret''"

definition errSecretConflict :: string where
  "errSecretConflict = ''cannot establish control of existing connection secret''"

definition errUpdateSecret :: string where
  "errUpdateSecret = ''cannot update connection secret''"

definition errCreateOrUpdateSecret :: string where
  "errCreateOrUpdateSecret = ''cannot create or update connection secret''"

definition errUpdateManaged :: string where
  "errUpdateManaged = ''cannot update managed resource''"

section \<open>Objects\<close>

record OwnerReference =
  OwnerUID :: string
  Controller :: "bool option"

record ObjectMeta =
  Name :: string
  Namespace :: string
  UID :: string
  ResourceVersion :: string
  Annotations :: "string \<rightharpoonup> string"
  Finalizers :: "string list"
  OwnerReferences :: "OwnerReference list"

record Secret = ObjectMeta +
  Data :: "string \<rightharpoonup> string"

datatype SecretReference = SecretReference (ref_Name: string) (ref_Namespace: string)

datatype LocalSecretReference = LocalSecretReference (local_Name: string)

record Managed = ObjectMeta +
  WriteConnectionSecretToReference :: "SecretReference option"

record LocalConnectionSecretOwner = ObjectMeta +
  WriteConnectionSecretToLocalReference :: "LocalSecretReference option"

datatype GroupVersionKind = GroupVersionKind string string string

datatype NamespacedName = NamespacedName (nn_Namespace: string) (nn_Name: string)

text \<open>
  A \<open>runtime.Object\<close> either gives access to its metadata (it is a \<open>metav1.Object\<close>)
  or it does not; the Applicators test this with a checked type assertion.
\<close>

datatype 'm runtime_Object = Object 'm | NoMeta

text \<open>
  \<open>metav1.GetControllerOf\<close>: the first owner reference whose Controller flag is set
  and true, nil when there is none.
\<close>

definition GetControllerOf :: "'a ObjectMeta_scheme \<Rightarrow> OwnerReference option" where
  "GetControllerOf controllee =
     List.find (\<lambda>r. Controller r = Some True) (OwnerReferences controllee)"

section \<open>The store's client\<close>

text \<open>
  The client of the object store is a collaborator: a record of its four operations over
  a store state of any type. \<open>Get\<close> answers with the object read or with an error, and
  only a successful \<open>Get\<close> writes into the object it was handed. \<open>Create\<close>,
  \<open>Update\<close> and \<open>Patch\<close> answer with an error or nil; that the client also decodes
  the server's answer into the object is not followed, since no code here reads an object
  after writing it. The context argument is left out.

  The \<open>patch\<close> struct holds the object to serialise; its \<open>Data\<close> ignores the object
  it is given and marshals the one it holds. \<open>json.Marshal\<close> is a parameter.

  \<open>recording\<close> wraps a client so that the state also lists the calls made, in order.
\<close>

datatype PatchType = JSONPatchType | MergePatchType | StrategicMergePatchType | ApplyPatchType

datatype 'm patch = patch (patch_from: 'm)

definition patch_Type :: "'m patch \<Rightarrow> PatchType" where
  "patch_Type p = MergePatchType"

definition patch_Data :: "('m \<Rightarrow> 'j) \<Rightarrow> 'm patch \<Rightarrow> 'm \<Rightarrow> 'j" where
  "patch_Data json_Marshal p obj = json_Marshal (patch_from p)"

record ('m, 's) Client =
  Get :: "NamespacedName \<Rightarrow> 's \<Rightarrow> (error + 'm) \<times> 's"
  Create :: "'m \<Rightarrow> 's \<Rightarrow> error option \<times> 's"
  Update :: "'m \<Rightarrow> 's \<Rightarrow> error option \<times> 's"
  Patch :: "'m \<Rightarrow> 'm patch \<Rightarrow> 's \<Rightarrow> error option \<times> 's"

type_synonym 'm ApplyOption = "'m \<Rightarrow> 'm \<Rightarrow> error + ('m \<times> 'm)"

type_synonym ('m, 's) Applicator =
  "'m runtime_Object \<Rightarrow> 'm ApplyOption list \<Rightarrow> 's \<Rightarrow> error option \<times> 's"

record ('m, 's) ClientApplicator = "('m, 's) Client" +
  Apply :: "('m, 's) Applicator"

datatype 'm call = CallGet NamespacedName | CallCreate 'm | CallUpdate 'm
  | CallPatch 'm "'m patch"

definition recording :: "('m, 's) Client \<Rightarrow> ('m, 's \<times> 'm call list) Client" where
  "recording c =
     \<lparr> Get = (\<lambda>n (s, calls). case Get c n s of (r, s') \<Rightarrow> (r, (s', calls @ [CallGet n]))),
       Create = (\<lambda>m (s, calls). case Create c m s of (e, s') \<Rightarrow> (e, (s', calls @ [CallCreate m]))),
       Update = (\<lambda>m (s, calls). case Update c m s of (e, s') \<Rightarrow> (e, (s', calls @ [CallUpdate m]))),
       Patch = (\<lambda>m p (s, calls). case Patch c m p s of (e, s') \<Rightarrow> (e, (s', calls @ [CallPatch m p]))) \<rparr>"

section \<open>pkg/resource/api.go\<close>

text \<open>
  An Apply Option is handed the current and the desired object and either vetoes with an
  error or returns, having possibly changed either object in place. The loop over the
  options stops at the first error.
\<close>

fun range_ao :: "'m ApplyOption list \<Rightarrow> 'm \<Rightarrow> 'm \<Rightarrow> error + ('m \<times> 'm)" where
  "range_ao [] current desired = Inr (current, desired)"
| "range_ao (fn # ao) current desired =
     (case fn current desired of
        Inl err \<Rightarrow> Inl err
      | Inr (current', desired') \<Rightarrow> range_ao ao current' desired')"

definition APIPatchingApplicator_Apply ::
  "('a ObjectMeta_scheme, 's, 'z) Client_scheme \<Rightarrow> ('a ObjectMeta_scheme, 's) Applicator" where
  "APIPatchingApplicator_Apply c obj ao s =
     (case obj of
        NoMeta \<Rightarrow> (Some (New ''cannot access object metadata''), s)
      | Object m \<Rightarrow>
          (let desired = m in
           case Get c (NamespacedName (Namespace m) (Name m)) s of
             (Inl err, s1) \<Rightarrow>
               if IsNotFound err
               then (case Create c m s1 of
                       (e, s2) \<Rightarrow> (errors_Wrap e ''cannot create object'', s2))
               else (Some (Wrap err ''cannot get object''), s1)
           | (Inr current, s1) \<Rightarrow>
               (case range_ao ao current desired of
                  Inl err \<Rightarrow> (Some err, s1)
                | Inr (current', desired') \<Rightarrow>
                    (case Patch c current' (patch desired') s1 of
                       (e, s2) \<Rightarrow> (errors_Wrap e ''cannot patch object'', s2)))))"

definition APIUpdatingApplicator_Apply ::
  "('a ObjectMeta_scheme, 's, 'z) Client_scheme \<Rightarrow> ('a ObjectMeta_scheme, 's) Applicator" where
  "APIUpdatingApplicator_Apply c obj ao s =
     (case obj of
        NoMeta \<Rightarrow> (Some (New ''cannot access object metadata''), s)
      | Object m \<Rightarrow>
          (case Get c (NamespacedName (Namespace m) (Name m)) s of
             (Inl err, s1) \<Rightarrow>
               if IsNotFound err
               then (case Create c m s1 of
                       (e, s2) \<Rightarrow> (errors_Wrap e ''cannot create object'', s2))
               else (Some (Wrap err ''cannot get object''), s1)
           | (Inr current, s1) \<Rightarrow>
               (case range_ao ao current m of
                  Inl err \<Rightarrow> (Some err, s1)
                | Inr (current', m') \<Rightarrow>
                    (case Update c m' s1 of
                       (e, s2) \<Rightarrow> (errors_Wrap e ''cannot update object'', s2)))))"

text \<open>
  \<open>MustGetKind\<close>, \<open>LocalConnectionSecretFor\<close>, \<open>ConnectionSecretFor\<close> and
  \<open>ConnectionSecretMustBeControllableBy\<close> of package resource and
  \<open>meta.AllowPropagation\<close> are defined outside api.go; the operations below take them
  as parameters. \<open>MustGetKind\<close> is handed the object and the typer and yields a kind
  with no error result, so a call that finds no kind does not return: its result is a
  kind or an abort, and an operation that runs into the abort has outcome
  \<open>Panicked\<close>. \<open>meta.AllowPropagation\<close> annotates both secrets in place and so
  returns the pair.

  \<open>NewAPIManagedConnectionPropagator\<close> pairs the client with the update-based
  Applicator over the same client.
\<close>

datatype 'a must = Panic | Got 'a

datatype outcome = Return "error option" | Panicked

record ('t, 's) APIManagedConnectionPropagator =
  propagator_client :: "(Secret, 's) ClientApplicator"
  propagator_typer :: 't

definition NewAPIManagedConnectionPropagator ::
  "(Secret, 's) Client \<Rightarrow> 't \<Rightarrow> ('t, 's) APIManagedConnectionPropagator" where
  "NewAPIManagedConnectionPropagator c t =
     \<lparr> propagator_client =
         \<lparr> Get = Get c, Create = Create c, Update = Update c, Patch = Patch c,
           Apply = APIUpdatingApplicator_Apply c \<rparr>,
       propagator_typer = t \<rparr>"

definition PropagateConnection ::
  "(LocalConnectionSecretOwner \<Rightarrow> 't \<Rightarrow> GroupVersionKind must) \<Rightarrow>
   (LocalConnectionSecretOwner \<Rightarrow> GroupVersionKind \<Rightarrow> Secret) \<Rightarrow>
   (Secret \<Rightarrow> Secret \<Rightarrow> Secret \<times> Secret) \<Rightarrow>
   (string \<Rightarrow> Secret ApplyOption) \<Rightarrow>
   ('t, 's) APIManagedConnectionPropagator \<Rightarrow> LocalConnectionSecretOwner \<Rightarrow> Managed \<Rightarrow>
   's \<Rightarrow> outcome \<times> 's" where
  "PropagateConnection MustGetKind LocalConnectionSecretFor AllowPropagation
       ConnectionSecretMustBeControllableBy a ow mg s =
     (case WriteConnectionSecretToReference mg of
        None \<Rightarrow> (Return None, s)
      | Some ref \<Rightarrow>
     (case WriteConnectionSecretToLocalReference ow of
        None \<Rightarrow> (Return None, s)
      | Some lref \<Rightarrow>
     (let n = NamespacedName (ref_Namespace ref) (ref_Name ref) in
      case Get (propagator_client a) n s of
        (Inl err, s1) \<Rightarrow> (Return (Some (Wrap err errGetSecret)), s1)
      | (Inr from, s1) \<Rightarrow>
          if (case GetControllerOf from of None \<Rightarrow> True | Some c \<Rightarrow> OwnerUID c \<noteq> UID mg)
          then (Return (Some (New errSecretConflict)), s1)
          else
            (case MustGetKind ow (propagator_typer a) of
               Panic \<Rightarrow> (Panicked, s1)
             | Got kind \<Rightarrow>
                 (let to = (LocalConnectionSecretFor ow kind)\<lparr>Data := Data from\<rparr> in
                  case AllowPropagation from to of
                    (from', to') \<Rightarrow>
                      (case Apply (propagator_client a) (Object to')
                              [ConnectionSecretMustBeControllableBy (UID ow)] s1 of
                         (Some err, s2) \<Rightarrow> (Return (Some (Wrap err errCreateOrUpdateSecret)), s2)
                       | (None, s2) \<Rightarrow>
                           (case Update (propagator_client a) from' s2 of
                              (e, s3) \<Rightarrow> (Return (errors_Wrap e errUpdateSecret), s3))))))))"

section \<open>Package meta and the helpers of package resource\<close>

text \<open>
  Modelled from the spec: package meta (FinalizerExists, AddFinalizer, RemoveFinalizer,
  GetExternalName, SetExternalName) lies outside the two source files verified here. The
  spec has the
  managed resource hold a set of finalizer tokens, where adding is a no-op for a token
  already present and removing is a no-op for an absent one, and a string-valued
  external-name annotation that reads as empty when unset.
\<close>

definition AnnotationKeyExternalName :: string where
  "AnnotationKeyExternalName = ''crossplane.io/external-name''"

definition meta_FinalizerExists :: "'a ObjectMeta_scheme \<Rightarrow> string \<Rightarrow> bool" where
  "meta_FinalizerExists m finalizer = (finalizer \<in> set (Finalizers m))"

definition meta_AddFinalizer :: "'a ObjectMeta_scheme \<Rightarrow> string \<Rightarrow> 'a ObjectMeta_scheme" where
  "meta_AddFinalizer m finalizer =
     (if finalizer \<in> set (Finalizers m) then m
      else m\<lparr>Finalizers := Finalizers m @ [finalizer]\<rparr>)"

definition meta_RemoveFinalizer :: "'a ObjectMeta_scheme \<Rightarrow> string \<Rightarrow> 'a ObjectMeta_scheme" where
  "meta_RemoveFinalizer m finalizer = m\<lparr>Finalizers := removeAll finalizer (Finalizers m)\<rparr>"

definition meta_GetExternalName :: "'a ObjectMeta_scheme \<Rightarrow> string" where
  "meta_GetExternalName m =
     (case Annotations m AnnotationKeyExternalName of None \<Rightarrow> [] | Some v \<Rightarrow> v)"

definition meta_SetExternalName :: "'a ObjectMeta_scheme \<Rightarrow> string \<Rightarrow> 'a ObjectMeta_scheme" where
  "meta_SetExternalName m name =
     m\<lparr>Annotations := (Annotations m)(AnnotationKeyExternalName \<mapsto> name)\<rparr>"

text \<open>
  Modelled from the spec: \<open>resource.IgnoreNotFound\<close> lies outside the two source files
  verified here. The spec has a not-found error swallowed and every other error reported.
\<close>

definition IgnoreNotFound :: "error option \<Rightarrow> error option" where
  "IgnoreNotFound e =
     (case e of None \<Rightarrow> None | Some err \<Rightarrow> if IsNotFound err then None else Some err)"

text \<open>
  Modelled from the spec: the store applies a merge patch as a partial update that
  touches only the fields the payload declares. A JSON document is taken as the map of
  its present fields.
\<close>

definition merge_patch :: "(string \<rightharpoonup> 'v) \<Rightarrow> (string \<rightharpoonup> 'v) \<Rightarrow> (string \<rightharpoonup> 'v)" where
  "merge_patch stored payload = stored ++ payload"

section \<open>Package managed\<close>

text \<open>
  The finalizer and initializer operations change the managed resource in place before
  they persist it; they return the resource as they left it together with the error.
  \<open>NewAPISecretPublisher\<close> injects the patch-based Applicator.
\<close>

record 's APIFinalizer =
  finalizer_client :: "(Managed, 's) Client"
  finalizer :: string

definition NewAPIFinalizer :: "(Managed, 's) Client \<Rightarrow> string \<Rightarrow> 's APIFinalizer" where
  "NewAPIFinalizer c f = \<lparr> finalizer_client = c, finalizer = f \<rparr>"

definition AddFinalizer ::
  "'s APIFinalizer \<Rightarrow> Managed \<Rightarrow> 's \<Rightarrow> (error option \<times> Managed) \<times> 's" where
  "AddFinalizer a mg s =
     (if meta_FinalizerExists mg (finalizer a) then ((None, mg), s)
      else
        (let mg' = meta_AddFinalizer mg (finalizer a) in
         case Update (finalizer_client a) mg' s of
           (e, s') \<Rightarrow> ((errors_Wrap e errUpdateManaged, mg'), s')))"

definition RemoveFinalizer ::
  "'s APIFinalizer \<Rightarrow> Managed \<Rightarrow> 's \<Rightarrow> (error option \<times> Managed) \<times> 's" where
  "RemoveFinalizer a mg s =
     (let mg' = meta_RemoveFinalizer mg (finalizer a) in
      case Update (finalizer_client a) mg' s of
        (e, s') \<Rightarrow> ((errors_Wrap (IgnoreNotFound e) errUpdateManaged, mg'), s'))"

definition Initialize ::
  "(Managed, 's) Client \<Rightarrow> Managed \<Rightarrow> 's \<Rightarrow> (error option \<times> Managed) \<times> 's" where
  "Initialize c mg s =
     (if meta_GetExternalName mg \<noteq> [] then ((None, mg), s)
      else
        (let mg' = meta_SetExternalName mg (Name mg) in
         case Update c mg' s of
           (e, s') \<Rightarrow> ((errors_Wrap e errUpdateManaged, mg'), s')))"

record ('t, 's) APISecretPublisher =
  publisher_secret :: "(Secret, 's) Applicator"
  publisher_typer :: 't

definition NewAPISecretPublisher ::
  "(Secret, 's) Client \<Rightarrow> 't \<Rightarrow> ('t, 's) APISecretPublisher" where
  "NewAPISecretPublisher c ot =
     \<lparr> publisher_secret = APIPatchingApplicator_Apply c, publisher_typer = ot \<rparr>"



section \<open>Test doubles and example objects\<close>

definition MockClient ::
  "(NamespacedName \<Rightarrow> error + 'm) \<Rightarrow> ('m \<Rightarrow> error option) \<Rightarrow> ('m \<Rightarrow> error option) \<Rightarrow>
   ('m \<Rightarrow> 'm patch \<Rightarrow> error option) \<Rightarrow> ('m, unit) Client" where
  "MockClient MockGet MockCreate MockUpdate MockPatch =
     \<lparr> Get = (\<lambda>n s. (MockGet n, s)),
       Create = (\<lambda>m s. (MockCreate m, s)),
       Update = (\<lambda>m s. (MockUpdate m, s)),
       Patch = (\<lambda>m p s. (MockPatch m p, s)) \<rparr>"

definition errBoom :: error where
  "errBoom = StatusError (StatusReasonUnknown ''boom'')"

definition example_secret :: Secret where
  "example_secret =
     \<lparr> Name = ''creds'', Namespace = ''ns'', UID = ''s1'', ResourceVersion = ''5'',
       Annotations = Map.empty, Finalizers = [],
       OwnerReferences = [\<lparr> OwnerUID = ''u1'', Controller = Some True \<rparr>],
       Data = [''user'' \<mapsto> ''a''] \<rparr>"

definition foreign_secret :: Secret where
  "foreign_secret =
     example_secret\<lparr>OwnerReferences := [\<lparr> OwnerUID = ''u2'', Controller = Some True \<rparr>]\<rparr>"

definition example_managed :: Managed where
  "example_managed =
     \<lparr> Name = ''db-1'', Namespace = ''ns'', UID = ''u1'', ResourceVersion = ''1'',
       Annotations = Map.empty, Finalizers = [], OwnerReferences = [],
       WriteConnectionSecretToReference = Some (SecretReference ''creds'' ''ns'') \<rparr>"

definition example_owner :: LocalConnectionSecretOwner where
  "example_owner =
     \<lparr> Name = ''claim-1'', Namespace = ''app'', UID = ''c1'', ResourceVersion = ''1'',
       Annotations = Map.empty, Finalizers = [], OwnerReferences = [],
       WriteConnectionSecretToLocalReference = Some (LocalSecretReference ''claim-creds'') \<rparr>"

text \<open>
  Stand-ins for the helpers of package resource that the propagator and the publisher
  receive as parameters. The typer of the stand-in is a canned answer: the kind it knows
  for the object, if any.
\<close>

definition MockMustGetKind :: "'x \<Rightarrow> GroupVersionKind option \<Rightarrow> GroupVersionKind must" where
  "MockMustGetKind obj t = (case t of None \<Rightarrow> Panic | Some kind \<Rightarrow> Got kind)"

definition example_kind :: GroupVersionKind where
  "example_kind = GroupVersionKind ''example.org'' ''v1'' ''Claim''"

definition example_LocalConnectionSecretFor ::
  "LocalConnectionSecretOwner \<Rightarrow> GroupVersionKind \<Rightarrow> Secret" where
  "example_LocalConnectionSecretFor ow kind =
     \<lparr> Name = (case WriteConnectionSecretToLocalReference ow of
                 None \<Rightarrow> [] | Some r \<Rightarrow> local_Name r),
       Namespace = Namespace ow, UID = [], ResourceVersion = [],
       Annotations = Map.empty, Finalizers = [],
       OwnerReferences = [\<lparr> OwnerUID = UID ow, Controller = Some True \<rparr>],
       Data = Map.empty \<rparr>"


definition example_AllowPropagation :: "Secret \<Rightarrow> Secret \<Rightarrow> Secret \<times> Secret" where
  "example_AllowPropagation from to =
     (from\<lparr>Annotations := (Annotations from)(''propagate-to'' \<mapsto> Name to)\<rparr>,
      to\<lparr>Annotations := (Annotations to)(''propagate-from'' \<mapsto> Name from)\<rparr>)"

definition example_ConnectionSecretMustBeControllableBy :: "string \<Rightarrow> Secret ApplyOption" where
  "example_ConnectionSecretMustBeControllableBy u current desired =
     (case GetControllerOf current of
        None \<Rightarrow> Inr (current, desired)
      | Some c \<Rightarrow>
          if OwnerUID c \<noteq> u then Inl (New ''existing secret is not controlled by UID'')
          else Inr (current, desired))"

text \<open>
  Apply Options for the examples: one that vetoes, one that changes only the current
  object it is handed, one that changes only the desired object, and one that copies the
  current object's resource version into the desired object.
\<close>

definition option_veto :: "'m ApplyOption" where
  "option_veto current desired = Inl errBoom"

definition option_touch_current :: "Secret ApplyOption" where
  "option_touch_current current desired =
     Inr (current\<lparr>Data := (Data current)(''extra'' \<mapsto> ''x'')\<rparr>, desired)"

definition option_touch_desired :: "Secret ApplyOption" where
  "option_touch_desired current desired =
     Inr (current, desired\<lparr>Data := (Data desired)(''extra'' \<mapsto> ''x'')\<rparr>)"

definition option_adopt_version :: "Secret ApplyOption" where
  "option_adopt_version current desired =
     Inr (current, desired\<lparr>ResourceVersion := ResourceVersion current\<rparr>)"

definition stale_secret :: Secret where
  "stale_secret = example_secret\<lparr>ResourceVersion := ''3''\<rparr>"

definition touched_secret :: Secret where
  "touched_secret = example_secret\<lparr>Data := (Data example_secret)(''extra'' \<mapsto> ''x'')\<rparr>"

definition example_Marshal :: "Secret \<Rightarrow> (string \<rightharpoonup> string)" where
  "example_Marshal sec = (Data sec)(''name'' \<mapsto> Name sec)"

definition MockUpdateAtVersion :: "string \<Rightarrow> Secret \<Rightarrow> error option" where
  "MockUpdateAtVersion stored m =
     (if ResourceVersion m = stored then None else Some (StatusError StatusReasonConflict))"

section \<open>The recorded client and the constructors\<close>

lemma recording_Get [simp]:
  "Get (recording c) n (s, calls) =
     (case Get c n s of (r, s') \<Rightarrow> (r, (s', calls @ [CallGet n])))"
  by (simp add: recording_def)

lemma recording_Create [simp]:
  "Create (recording c) m (s, calls) =
     (case Create c m s of (e, s') \<Rightarrow> (e, (s', calls @ [CallCreate m])))"
  by (simp add: recording_def)

lemma recording_Update [simp]:
  "Update (recording c) m (s, calls) =
     (case Update c m s of (e, s') \<Rightarrow> (e, (s', calls @ [CallUpdate m])))"
  by (simp add: recording_def)

lemma recording_Patch [simp]:
  "Patch (recording c) m p (s, calls) =
     (case Patch c m p s of (e, s') \<Rightarrow> (e, (s', calls @ [CallPatch m p])))"
  by (simp add: recording_def)

lemma propagator_fields [simp]:
  "Get (propagator_client (NewAPIManagedConnectionPropagator c t)) = Get c"
  "Update (propagator_client (NewAPIManagedConnectionPropagator c t)) = Update c"
  "Apply (propagator_client (NewAPIManagedConnectionPropagator c t)) =
     APIUpdatingApplicator_Apply c"
  "propagator_typer (NewAPIManagedConnectionPropagator c t) = t"
  by (simp_all add: NewAPIManagedConnectionPropagator_def)

lemma MockClient_simps [simp]:
  "Get (MockClient g cr u p) n s = (g n, s)"
  "Create (MockClient g cr u p) m s = (cr m, s)"
  "Update (MockClient g cr u p) m s = (u m, s)"
  "Patch (MockClient g cr u p) m pa s = (p m pa, s)"
  by (simp_all add: MockClient_def)

lemma publisher_fields [simp]:
  "publisher_secret (NewAPISecretPublisher c ot) = APIPatchingApplicator_Apply c"
  "publisher_typer (NewAPISecretPublisher c ot) = ot"
  by (simp_all add: NewAPISecretPublisher_def)

lemma finalizer_fields [simp]:
  "finalizer_client (NewAPIFinalizer c f) = c"
  "finalizer (NewAPIFinalizer c f) = f"
  by (simp_all add: NewAPIFinalizer_def)

lemma errors_Wrap_None [simp]: "errors_Wrap e msg = None \<longleftrightarrow> e = None"
  by (cases e) simp_all

lemma range_ao_keeps:
  assumes "\<forall>fn\<in>set ao. \<forall>cu d cu' d'. fn cu d = Inr (cu', d') \<longrightarrow> f d' = f d"
    and "range_ao ao current desired = Inr (current', desired')"
  shows "f desired' = f desired"
  using assms
proof (induction ao arbitrary: current desired)
  case Nil
  then show ?case by simp
next
  case (Cons fn ao)
  from Cons.prems(2) obtain cu1 d1 where step: "fn current desired = Inr (cu1, d1)"
    and rest: "range_ao ao cu1 d1 = Inr (current', desired')"
    by (auto split: sum.splits)
  from Cons.prems(1) step have "f d1 = f desired" by auto
  moreover from Cons.IH [OF _ rest] Cons.prems(1) have "f desired' = f d1" by auto
  ultimately show ?case by simp
qed

lemma Updating_Apply_found:
  assumes "Get c (NamespacedName (Namespace m) (Name m)) s = (Inr current, s1)"
    and "range_ao ao current m = Inr (current', m')"
    and "Update c m' s1 = (e, s2)"
  shows "APIUpdatingApplicator_Apply (recording c) (Object m) ao (s, calls)
         = (errors_Wrap e ''cannot update object'',
            (s2, calls @ [CallGet (NamespacedName (Namespace m) (Name m)), CallUpdate m']))"
  using assms by (simp add: APIUpdatingApplicator_Apply_def)

lemma Patching_Apply_found:
  assumes "Get c (NamespacedName (Namespace m) (Name m)) s = (Inr current, s1)"
    and "range_ao ao current m = Inr (current', desired')"
    and "Patch c current' (patch desired') s1 = (e, s2)"
  shows "APIPatchingApplicator_Apply (recording c) (Object m) ao (s, calls)
         = (errors_Wrap e ''cannot patch object'',
            (s2, calls @ [CallGet (NamespacedName (Namespace m) (Name m)),
                          CallPatch current' (patch desired')]))"
  using assms by (simp add: APIPatchingApplicator_Apply_def)

lemma Updating_Apply_not_found:
  assumes "Get c (NamespacedName (Namespace m) (Name m)) s = (Inl err, s1)"
    and "IsNotFound err"
    and "Create c m s1 = (e, s2)"
  shows "APIUpdatingApplicator_Apply (recording c) (Object m) ao (s, calls)
         = (errors_Wrap e ''cannot create object'',
            (s2, calls @ [CallGet (NamespacedName (Namespace m) (Name m)), CallCreate m]))"
  using assms by (simp add: APIUpdatingApplicator_Apply_def)

lemma Patching_Apply_not_found:
  assumes "Get c (NamespacedName (Namespace m) (Name m)) s = (Inl err, s1)"
    and "IsNotFound err"
    and "Create c m s1 = (e, s2)"
  shows "APIPatchingApplicator_Apply (recording c) (Object m) ao (s, calls)
         = (errors_Wrap e ''cannot create object'',
            (s2, calls @ [CallGet (NamespacedName (Namespace m) (Name m)), CallCreate m]))"
  using assms by (simp add: APIPatchingApplicator_Apply_def)

lemma Updating_Apply_success_calls:
  assumes "APIUpdatingApplicator_Apply (recording c) (Object m) ao (s, calls) = (None, (s2, calls2))"
  shows "\<exists>w. calls2 = calls @ [CallGet (NamespacedName (Namespace m) (Name m)), w]
             \<and> (w = CallCreate m \<or> (\<exists>u. w = CallUpdate u))"
proof (cases "Get c (NamespacedName (Namespace m) (Name m)) s")
  case (Pair r s1)
  show ?thesis
  proof (cases r)
    case (Inl err)
    with Pair assms show ?thesis
      by (auto simp: APIUpdatingApplicator_Apply_def split: if_splits prod.splits)
  next
    case (Inr current)
    with Pair assms show ?thesis
      by (auto simp: APIUpdatingApplicator_Apply_def split: sum.splits prod.splits)
  qed
qed

lemma fold_options_Inl:
  "fold (\<lambda>fn acc. case acc of Inl err \<Rightarrow> Inl err | Inr (cu, d) \<Rightarrow> fn cu d) ao (Inl e) = Inl e"
  by (induction ao) simp_all

lemma range_ao_fold:
  "range_ao ao current desired
     = fold (\<lambda>fn acc. case acc of Inl err \<Rightarrow> Inl err | Inr (cu, d) \<Rightarrow> fn cu d) ao
         (Inr (current, desired))"
proof (induction ao arbitrary: current desired)
  case Nil
  show ?case by simp
next
  case (Cons fn ao)
  show ?case
  proof (cases "fn current desired")
    case (Inl err)
    then show ?thesis by (simp add: fold_options_Inl)
  next
    case (Inr pair)
    obtain cu1 d1 where "pair = (cu1, d1)" by (cases pair)
    with Inr Cons.IH [of cu1 d1] show ?thesis by simp
  qed
qed

lemma Updating_Apply_found_run:
  assumes "Get c (NamespacedName (Namespace m) (Name m)) s = (Inr current, s1)"
  shows "APIUpdatingApplicator_Apply (recording c) (Object m) ao (s, calls)
         = (case range_ao ao current m of
              Inl err \<Rightarrow> (Some err, (s1, calls @ [CallGet (NamespacedName (Namespace m) (Name m))]))
            | Inr (current', m') \<Rightarrow>
                (errors_Wrap (fst (Update c m' s1)) ''cannot update object'',
                 (snd (Update c m' s1),
                  calls @ [CallGet (NamespacedName (Namespace m) (Name m)), CallUpdate m'])))"
  using assms
  by (auto simp: APIUpdatingApplicator_Apply_def split: sum.splits prod.splits)

lemma FinalizerExists_after_Add:
  "meta_FinalizerExists (meta_AddFinalizer m f) f"
  by (simp add: meta_FinalizerExists_def meta_AddFinalizer_def)

lemma AddFinalizer_present:
  "meta_FinalizerExists mg (finalizer a) \<Longrightarrow> AddFinalizer a mg st = ((None, mg), st)"
  by (simp add: AddFinalizer_def)

lemma AddFinalizer_leaves_token:
  assumes "AddFinalizer a mg st = ((e1, mg1), st1)"
  shows "meta_FinalizerExists mg1 (finalizer a)"
proof (cases "meta_FinalizerExists mg (finalizer a)")
  case True
  with assms show ?thesis by (simp add: AddFinalizer_def)
next
  case False
  with assms have "mg1 = meta_AddFinalizer mg (finalizer a)"
    by (auto simp: AddFinalizer_def Let_def split: prod.splits)
  then show ?thesis by (simp add: FinalizerExists_after_Add)
qed

section \<open>Connection secret propagation\<close>

text \<open>
  C1. When both secret references are configured and the source secret is read, a source
  secret with no controller reference, or with one whose UID is not the managed
  resource's, makes PropagateConnection return the ownership-conflict error. The read is
  the only call the client sees: nothing is written to the destination secret and the
  source secret is not updated.
\<close>

theorem PropagateConnection_ownership_conflict:
  assumes "WriteConnectionSecretToReference mg = Some ref"
    and "WriteConnectionSecretToLocalReference ow = Some lref"
    and "Get c (NamespacedName (ref_Namespace ref) (ref_Name ref)) s = (Inr from, s1)"
    and "GetControllerOf from = None \<or>
         (\<exists>r. GetControllerOf from = Some r \<and> OwnerUID r \<noteq> UID mg)"
  shows "PropagateConnection MustGetKind LocalConnectionSecretFor AllowPropagation
           ConnectionSecretMustBeControllableBy
           (NewAPIManagedConnectionPropagator (recording c) t) ow mg (s, calls)
         = (Return (Some (New errSecretConflict)),
            (s1, calls @ [CallGet (NamespacedName (ref_Namespace ref) (ref_Name ref))]))"
  using assms by (auto simp: PropagateConnection_def)

theorem PropagateConnection_ownership_conflict_witness:
  "PropagateConnection MockMustGetKind example_LocalConnectionSecretFor
     example_AllowPropagation example_ConnectionSecretMustBeControllableBy
     (NewAPIManagedConnectionPropagator
        (recording (MockClient (\<lambda>n. Inr foreign_secret) (\<lambda>m. None) (\<lambda>m. None) (\<lambda>m p. None)))
        (Some example_kind))
     example_owner example_managed ((), [])
   = (Return (Some (New errSecretConflict)), ((), [CallGet (NamespacedName ''ns'' ''creds'')]))"
  using PropagateConnection_ownership_conflict
    [where mg = example_managed and ref = "SecretReference ''creds'' ''ns''"
       and ow = example_owner and lref = "LocalSecretReference ''claim-creds''"
       and c = "MockClient (\<lambda>n. Inr foreign_secret) (\<lambda>m. None) (\<lambda>m. None) (\<lambda>m p. None)"
       and s = "()" and ?from = foreign_secret and ?s1.0 = "()"
       and MustGetKind = MockMustGetKind
       and LocalConnectionSecretFor = example_LocalConnectionSecretFor
       and AllowPropagation = example_AllowPropagation
       and ConnectionSecretMustBeControllableBy = example_ConnectionSecretMustBeControllableBy
       and t = "Some example_kind" and calls = "[]"]
  by (simp add: example_managed_def example_owner_def example_secret_def foreign_secret_def
      GetControllerOf_def)

text \<open>
  C5. Once both references are configured, the source secret is read, its controller is
  the managed resource and the owner's kind is known, the destination secret is applied
  first. The update of the source secret is issued only after a successful apply, as the
  call that follows the destination's read and its create or update; if that update
  fails, the error is returned wrapped although the destination is already written. A
  failed apply is returned wrapped and the source secret is not updated.
\<close>

theorem PropagateConnection_write_then_mark:
  assumes "WriteConnectionSecretToReference mg = Some ref"
    and "WriteConnectionSecretToLocalReference ow = Some lref"
    and "Get c (NamespacedName (ref_Namespace ref) (ref_Name ref)) s = (Inr from, s1)"
    and "GetControllerOf from = Some r" and "OwnerUID r = UID mg"
    and "MustGetKind ow t = Got kind"
    and "AllowPropagation from ((LocalConnectionSecretFor ow kind)\<lparr>Data := Data from\<rparr>)
           = (from', to')"
    and "APIUpdatingApplicator_Apply (recording c) (Object to')
           [ConnectionSecretMustBeControllableBy (UID ow)]
           (s1, calls @ [CallGet (NamespacedName (ref_Namespace ref) (ref_Name ref))])
           = (applied, (s2, calls2))"
    and "Update c from' s2 = (e, s3)"
  shows "PropagateConnection MustGetKind LocalConnectionSecretFor AllowPropagation
           ConnectionSecretMustBeControllableBy
           (NewAPIManagedConnectionPropagator (recording c) t) ow mg (s, calls)
         = (case applied of
              Some err \<Rightarrow> (Return (Some (Wrap err errCreateOrUpdateSecret)), (s2, calls2))
            | None \<Rightarrow> (Return (errors_Wrap e errUpdateSecret), (s3, calls2 @ [CallUpdate from'])))
       \<and> (applied = None \<longrightarrow>
            (\<exists>w. calls2 = calls @ [CallGet (NamespacedName (ref_Namespace ref) (ref_Name ref)),
                                   CallGet (NamespacedName (Namespace to') (Name to')), w]
                 \<and> (w = CallCreate to' \<or> (\<exists>u. w = CallUpdate u))))
       \<and> (applied = None \<longrightarrow> e = Some err \<longrightarrow>
            fst (PropagateConnection MustGetKind LocalConnectionSecretFor AllowPropagation
                   ConnectionSecretMustBeControllableBy
                   (NewAPIManagedConnectionPropagator (recording c) t) ow mg (s, calls))
              = Return (Some (Wrap err errUpdateSecret)))"
proof -
  have run: "PropagateConnection MustGetKind LocalConnectionSecretFor AllowPropagation
           ConnectionSecretMustBeControllableBy
           (NewAPIManagedConnectionPropagator (recording c) t) ow mg (s, calls)
         = (case applied of
              Some err \<Rightarrow> (Return (Some (Wrap err errCreateOrUpdateSecret)), (s2, calls2))
            | None \<Rightarrow> (Return (errors_Wrap e errUpdateSecret), (s3, calls2 @ [CallUpdate from'])))"
    using assms by (cases applied) (simp_all add: PropagateConnection_def)
  have order: "applied = None \<longrightarrow>
            (\<exists>w. calls2 = calls @ [CallGet (NamespacedName (ref_Namespace ref) (ref_Name ref)),
                                   CallGet (NamespacedName (Namespace to') (Name to')), w]
                 \<and> (w = CallCreate to' \<or> (\<exists>u. w = CallUpdate u)))"
  proof
    assume "applied = None"
    with assms(8) have "APIUpdatingApplicator_Apply (recording c) (Object to')
           [ConnectionSecretMustBeControllableBy (UID ow)]
           (s1, calls @ [CallGet (NamespacedName (ref_Namespace ref) (ref_Name ref))])
           = (None, (s2, calls2))" by simp
    from Updating_Apply_success_calls [OF this]
    show "\<exists>w. calls2 = calls @ [CallGet (NamespacedName (ref_Namespace ref) (ref_Name ref)),
                                   CallGet (NamespacedName (Namespace to') (Name to')), w]
                 \<and> (w = CallCreate to' \<or> (\<exists>u. w = CallUpdate u))"
      by auto
  qed
  have fails: "applied = None \<longrightarrow> e = Some err \<longrightarrow>
            fst (PropagateConnection MustGetKind LocalConnectionSecretFor AllowPropagation
                   ConnectionSecretMustBeControllableBy
                   (NewAPIManagedConnectionPropagator (recording c) t) ow mg (s, calls))
              = Return (Some (Wrap err errUpdateSecret))"
    by (simp add: run)
  from run order fails show ?thesis by (intro conjI)
qed

theorem PropagateConnection_write_then_mark_witness:
  "PropagateConnection MockMustGetKind example_LocalConnectionSecretFor
     example_AllowPropagation example_ConnectionSecretMustBeControllableBy
     (NewAPIManagedConnectionPropagator
        (recording (MockClient
           (\<lambda>n. if n = NamespacedName ''ns'' ''creds'' then Inr example_secret
                else Inl (StatusError StatusReasonNotFound))
           (\<lambda>m. None) (\<lambda>m. Some errBoom) (\<lambda>m p. None)))
        (Some example_kind))
     example_owner example_managed ((), [])
   = (Return (Some (Wrap errBoom errUpdateSecret)),
      ((), [CallGet (NamespacedName ''ns'' ''creds''),
            CallGet (NamespacedName ''app'' ''claim-creds''),
            CallCreate (snd (example_AllowPropagation example_secret
              ((example_LocalConnectionSecretFor example_owner example_kind)
                 \<lparr>Data := Data example_secret\<rparr>))),
            CallUpdate (fst (example_AllowPropagation example_secret
              ((example_LocalConnectionSecretFor example_owner example_kind)
                 \<lparr>Data := Data example_secret\<rparr>)))]))"
  using PropagateConnection_write_then_mark
    [where mg = example_managed and ref = "SecretReference ''creds'' ''ns''"
       and ow = example_owner and lref = "LocalSecretReference ''claim-creds''"
       and c = "MockClient
           (\<lambda>n. if n = NamespacedName ''ns'' ''creds'' then Inr example_secret
                else Inl (StatusError StatusReasonNotFound))
           (\<lambda>m. None) (\<lambda>m. Some errBoom) (\<lambda>m p. None)"
       and s = "()" and ?from = example_secret and ?s1.0 = "()"
       and r = "\<lparr> OwnerUID = ''u1'', Controller = Some True \<rparr>"
       and MustGetKind = MockMustGetKind and t = "Some example_kind" and kind = example_kind
       and LocalConnectionSecretFor = example_LocalConnectionSecretFor
       and AllowPropagation = example_AllowPropagation
       and ConnectionSecretMustBeControllableBy = example_ConnectionSecretMustBeControllableBy
       and from' = "fst (example_AllowPropagation example_secret
              ((example_LocalConnectionSecretFor example_owner example_kind)
                 \<lparr>Data := Data example_secret\<rparr>))"
       and to' = "snd (example_AllowPropagation example_secret
              ((example_LocalConnectionSecretFor example_owner example_kind)
                 \<lparr>Data := Data example_secret\<rparr>))"
       and calls = "[]" and applied = None and ?s2.0 = "()"
       and ?calls2.0 = "[CallGet (NamespacedName ''ns'' ''creds''),
            CallGet (NamespacedName ''app'' ''claim-creds''),
            CallCreate (snd (example_AllowPropagation example_secret
              ((example_LocalConnectionSecretFor example_owner example_kind)
                 \<lparr>Data := Data example_secret\<rparr>)))]"
       and e = "Some errBoom" and ?s3.0 = "()"]
  by (simp add: example_managed_def example_owner_def example_secret_def
      GetControllerOf_def MockMustGetKind_def example_AllowPropagation_def
      example_LocalConnectionSecretFor_def APIUpdatingApplicator_Apply_def)

section \<open>The Applicators\<close>

text \<open>
  C6. When the read reports not-found, both Applicators create the object exactly as it
  was supplied and return the create's error, wrapped, or nil. The outcome is the same
  for every list of Apply Options: none of them is run.
\<close>

theorem Apply_not_found_creates:
  assumes "Get c (NamespacedName (Namespace m) (Name m)) s = (Inl err, s1)"
    and "IsNotFound err"
    and "Create c m s1 = (e, s2)"
  shows "APIPatchingApplicator_Apply (recording c) (Object m) ao (s, calls)
           = (errors_Wrap e ''cannot create object'',
              (s2, calls @ [CallGet (NamespacedName (Namespace m) (Name m)), CallCreate m]))
       \<and> APIUpdatingApplicator_Apply (recording c) (Object m) ao (s, calls)
           = (errors_Wrap e ''cannot create object'',
              (s2, calls @ [CallGet (NamespacedName (Namespace m) (Name m)), CallCreate m]))"
  using Patching_Apply_not_found [OF assms] Updating_Apply_not_found [OF assms] by simp

theorem Apply_not_found_creates_witness:
  "APIPatchingApplicator_Apply
       (recording (MockClient (\<lambda>n. Inl (StatusError StatusReasonNotFound))
          (\<lambda>m. Some errBoom) (\<lambda>m. None) (\<lambda>m p. None)))
       (Object example_secret) [option_veto] ((), [])
     = (Some (Wrap errBoom ''cannot create object''),
        ((), [CallGet (NamespacedName ''ns'' ''creds''), CallCreate example_secret]))
   \<and> APIUpdatingApplicator_Apply
       (recording (MockClient (\<lambda>n. Inl (StatusError StatusReasonNotFound))
          (\<lambda>m. Some errBoom) (\<lambda>m. None) (\<lambda>m p. None)))
       (Object example_secret) [option_veto] ((), [])
     = (Some (Wrap errBoom ''cannot create object''),
        ((), [CallGet (NamespacedName ''ns'' ''creds''), CallCreate example_secret]))"
  using Apply_not_found_creates
    [where c = "MockClient (\<lambda>n. Inl (StatusError StatusReasonNotFound))
          (\<lambda>m. Some errBoom) (\<lambda>m. None) (\<lambda>m p. None)"
       and m = example_secret and s = "()" and err = "StatusError StatusReasonNotFound"
       and ?s1.0 = "()" and e = "Some errBoom" and ?s2.0 = "()" and ao = "[option_veto]"
       and calls = "[]"]
  by (simp add: example_secret_def)

text \<open>
  C2, as stated, fails: the update-based Applicator sends the caller's object, so the
  update carries that object's resource version and not the one the read returned. Here
  the read returns version 5, the caller's object has version 3, the store is still at
  version 5, and the update is refused; the conflict comes back wrapped.
\<close>

theorem UpdatingApplicator_version_counterexample:
  "APIUpdatingApplicator_Apply
       (recording (MockClient (\<lambda>n. Inr example_secret) (\<lambda>m. None)
          (MockUpdateAtVersion ''5'') (\<lambda>m p. None)))
       (Object stale_secret) [] ((), [])
     = (Some (Wrap (StatusError StatusReasonConflict) ''cannot update object''),
        ((), [CallGet (NamespacedName ''ns'' ''creds''), CallUpdate stale_secret]))
   \<and> ResourceVersion example_secret = ''5''
   \<and> ResourceVersion stale_secret = ''3''"
  by (simp add: APIUpdatingApplicator_Apply_def example_secret_def stale_secret_def
      MockUpdateAtVersion_def)

text \<open>
  C2, amended. On an object that exists and whose Apply Options all succeed, the update
  issued carries the caller's object as the options left it. Its resource version is the
  caller's own whenever no option changes the resource version of its second argument;
  the version the read returned is not copied. Whatever error the update reports, a
  conflict included, is returned wrapped as "cannot update object".
\<close>

theorem UpdatingApplicator_update_version:
  assumes "Get c (NamespacedName (Namespace m) (Name m)) s = (Inr current, s1)"
    and "range_ao ao current m = Inr (current', m')"
    and "Update c m' s1 = (e, s2)"
  shows "snd (snd (APIUpdatingApplicator_Apply (recording c) (Object m) ao (s, calls)))
           = calls @ [CallGet (NamespacedName (Namespace m) (Name m)), CallUpdate m']
       \<and> ((\<forall>fn\<in>set ao. \<forall>cu d cu' d'. fn cu d = Inr (cu', d') \<longrightarrow>
              ResourceVersion d' = ResourceVersion d)
            \<longrightarrow> ResourceVersion m' = ResourceVersion m)
       \<and> fst (APIUpdatingApplicator_Apply (recording c) (Object m) ao (s, calls))
           = (case e of None \<Rightarrow> None | Some err \<Rightarrow> Some (Wrap err ''cannot update object''))"
proof -
  have run: "APIUpdatingApplicator_Apply (recording c) (Object m) ao (s, calls)
           = (errors_Wrap e ''cannot update object'',
              (s2, calls @ [CallGet (NamespacedName (Namespace m) (Name m)), CallUpdate m']))"
    by (rule Updating_Apply_found [OF assms])
  have version: "(\<forall>fn\<in>set ao. \<forall>cu d cu' d'. fn cu d = Inr (cu', d') \<longrightarrow>
              ResourceVersion d' = ResourceVersion d)
            \<longrightarrow> ResourceVersion m' = ResourceVersion m"
    using range_ao_keeps [where f = ResourceVersion, OF _ assms(2)] by blast
  have wrapped: "errors_Wrap e ''cannot update object''
      = (case e of None \<Rightarrow> None | Some err \<Rightarrow> Some (Wrap err ''cannot update object''))"
    by (cases e) simp_all
  from run version wrapped show ?thesis by simp
qed

theorem UpdatingApplicator_update_version_witness:
  "snd (snd (APIUpdatingApplicator_Apply
       (recording (MockClient (\<lambda>n. Inr example_secret) (\<lambda>m. None)
          (MockUpdateAtVersion ''5'') (\<lambda>m p. None)))
       (Object stale_secret) [option_touch_current] ((), [])))
     = [CallGet (NamespacedName ''ns'' ''creds''), CallUpdate stale_secret]
   \<and> ResourceVersion stale_secret = ''3''
   \<and> fst (APIUpdatingApplicator_Apply
       (recording (MockClient (\<lambda>n. Inr example_secret) (\<lambda>m. None)
          (MockUpdateAtVersion ''5'') (\<lambda>m p. None)))
       (Object stale_secret) [option_touch_current] ((), []))
     = Some (Wrap (StatusError StatusReasonConflict) ''cannot update object'')"
  using UpdatingApplicator_update_version
    [where c = "MockClient (\<lambda>n. Inr example_secret) (\<lambda>m. None)
          (MockUpdateAtVersion ''5'') (\<lambda>m p. None)"
       and m = stale_secret and s = "()" and current = example_secret and ?s1.0 = "()"
       and ao = "[option_touch_current]" and m' = stale_secret
       and current' = "example_secret\<lparr>Data := (Data example_secret)(''extra'' \<mapsto> ''x'')\<rparr>"
       and e = "Some (StatusError StatusReasonConflict)" and ?s2.0 = "()" and calls = "[]"]
  by (simp add: example_secret_def stale_secret_def option_touch_current_def
      MockUpdateAtVersion_def)

text \<open>
  C10. On an existing object the update-based Applicator runs the Apply Options in
  order, the first on the object just read (first argument) and the caller's object
  (second argument), each later one on what the one before returned; the first veto is
  returned and nothing is written. Otherwise the update sends the second component, the
  caller's object as the options left it; the copy that was read, and whatever the
  options did to it, is never sent. For a single option this is its result on the object
  read and the caller's object. When the options leave their second argument as it is,
  the only update that can be sent is the caller's object unchanged.
\<close>

theorem UpdatingApplicator_sends_caller_object:
  assumes "Get c (NamespacedName (Namespace m) (Name m)) s = (Inr current, s1)"
  shows "APIUpdatingApplicator_Apply (recording c) (Object m) ao (s, calls)
           = (case fold (\<lambda>fn acc. case acc of Inl err \<Rightarrow> Inl err | Inr (cu, d) \<Rightarrow> fn cu d) ao
                     (Inr (current, m)) of
                Inl err \<Rightarrow>
                  (Some err, (s1, calls @ [CallGet (NamespacedName (Namespace m) (Name m))]))
              | Inr (current', m') \<Rightarrow>
                  (errors_Wrap (fst (Update c m' s1)) ''cannot update object'',
                   (snd (Update c m' s1),
                    calls @ [CallGet (NamespacedName (Namespace m) (Name m)), CallUpdate m'])))
       \<and> APIUpdatingApplicator_Apply (recording c) (Object m) [fn] (s, calls)
           = (case fn current m of
                Inl err \<Rightarrow>
                  (Some err, (s1, calls @ [CallGet (NamespacedName (Namespace m) (Name m))]))
              | Inr (current', m') \<Rightarrow>
                  (errors_Wrap (fst (Update c m' s1)) ''cannot update object'',
                   (snd (Update c m' s1),
                    calls @ [CallGet (NamespacedName (Namespace m) (Name m)), CallUpdate m'])))
       \<and> ((\<forall>fn\<in>set ao. \<forall>cu d cu' d'. fn cu d = Inr (cu', d') \<longrightarrow> d' = d) \<longrightarrow>
            snd (snd (APIUpdatingApplicator_Apply (recording c) (Object m) ao (s, calls)))
              = calls @ [CallGet (NamespacedName (Namespace m) (Name m))]
          \<or> snd (snd (APIUpdatingApplicator_Apply (recording c) (Object m) ao (s, calls)))
              = calls @ [CallGet (NamespacedName (Namespace m) (Name m)), CallUpdate m])"
proof (intro conjI impI)
  show "APIUpdatingApplicator_Apply (recording c) (Object m) ao (s, calls)
           = (case fold (\<lambda>fn acc. case acc of Inl err \<Rightarrow> Inl err | Inr (cu, d) \<Rightarrow> fn cu d) ao
                     (Inr (current, m)) of
                Inl err \<Rightarrow>
                  (Some err, (s1, calls @ [CallGet (NamespacedName (Namespace m) (Name m))]))
              | Inr (current', m') \<Rightarrow>
                  (errors_Wrap (fst (Update c m' s1)) ''cannot update object'',
                   (snd (Update c m' s1),
                    calls @ [CallGet (NamespacedName (Namespace m) (Name m)), CallUpdate m'])))"
    by (simp only: Updating_Apply_found_run [OF assms] range_ao_fold)
  show "APIUpdatingApplicator_Apply (recording c) (Object m) [fn] (s, calls)
           = (case fn current m of
                Inl err \<Rightarrow>
                  (Some err, (s1, calls @ [CallGet (NamespacedName (Namespace m) (Name m))]))
              | Inr (current', m') \<Rightarrow>
                  (errors_Wrap (fst (Update c m' s1)) ''cannot update object'',
                   (snd (Update c m' s1),
                    calls @ [CallGet (NamespacedName (Namespace m) (Name m)), CallUpdate m'])))"
    by (simp add: Updating_Apply_found_run [OF assms] split: sum.splits prod.splits)
next
  assume keep: "\<forall>fn\<in>set ao. \<forall>cu d cu' d'. fn cu d = Inr (cu', d') \<longrightarrow> d' = d"
  show "snd (snd (APIUpdatingApplicator_Apply (recording c) (Object m) ao (s, calls)))
              = calls @ [CallGet (NamespacedName (Namespace m) (Name m))]
          \<or> snd (snd (APIUpdatingApplicator_Apply (recording c) (Object m) ao (s, calls)))
              = calls @ [CallGet (NamespacedName (Namespace m) (Name m)), CallUpdate m]"
  proof (cases "range_ao ao current m")
    case (Inl err)
    then show ?thesis by (simp add: Updating_Apply_found_run [OF assms])
  next
    case (Inr pair)
    obtain current' m' where pair: "pair = (current', m')" by (cases pair)
    with Inr have run: "range_ao ao current m = Inr (current', m')" by simp
    from range_ao_keeps [where f = "\<lambda>d. d", OF keep run] have "m' = m" .
    with run show ?thesis by (simp add: Updating_Apply_found_run [OF assms])
  qed
qed

theorem UpdatingApplicator_sends_caller_object_witness:
  "APIUpdatingApplicator_Apply
       (recording (MockClient (\<lambda>n. Inr example_secret) (\<lambda>m. None) (\<lambda>m. None) (\<lambda>m p. None)))
       (Object stale_secret) [option_touch_current, option_adopt_version] ((), [])
     = (None, ((), [CallGet (NamespacedName ''ns'' ''creds''),
                    CallUpdate (stale_secret\<lparr>ResourceVersion := ''5''\<rparr>)]))
   \<and> APIUpdatingApplicator_Apply
       (recording (MockClient (\<lambda>n. Inr example_secret) (\<lambda>m. None) (\<lambda>m. None) (\<lambda>m p. None)))
       (Object stale_secret) [option_touch_desired] ((), [])
     = (None, ((), [CallGet (NamespacedName ''ns'' ''creds''),
                    CallUpdate (stale_secret\<lparr>Data := (Data stale_secret)(''extra'' \<mapsto> ''x'')\<rparr>)]))
   \<and> APIUpdatingApplicator_Apply
       (recording (MockClient (\<lambda>n. Inr example_secret) (\<lambda>m. None) (\<lambda>m. None) (\<lambda>m p. None)))
       (Object stale_secret) [option_touch_current] ((), [])
     = (None, ((), [CallGet (NamespacedName ''ns'' ''creds''), CallUpdate stale_secret]))
   \<and> APIUpdatingApplicator_Apply
       (recording (MockClient (\<lambda>n. Inr example_secret) (\<lambda>m. None) (\<lambda>m. None) (\<lambda>m p. None)))
       (Object stale_secret) [option_veto, option_touch_desired] ((), [])
     = (Some errBoom, ((), [CallGet (NamespacedName ''ns'' ''creds'')]))"
  using UpdatingApplicator_sends_caller_object
    [where c = "MockClient (\<lambda>n. Inr example_secret) (\<lambda>m. None) (\<lambda>m. None) (\<lambda>m p. None)"
       and m = stale_secret and s = "()" and current = example_secret and ?s1.0 = "()"
       and ao = "[option_touch_current, option_adopt_version]" and fn = option_touch_desired
       and calls = "[]"]
    UpdatingApplicator_sends_caller_object
    [where c = "MockClient (\<lambda>n. Inr example_secret) (\<lambda>m. None) (\<lambda>m. None) (\<lambda>m p. None)"
       and m = stale_secret and s = "()" and current = example_secret and ?s1.0 = "()"
       and ao = "[option_veto, option_touch_desired]" and fn = option_touch_current
       and calls = "[]"]
  by (simp add: example_secret_def stale_secret_def option_touch_current_def
      option_touch_desired_def option_adopt_version_def option_veto_def)

text \<open>
  C3, as stated, fails: the Apply Options receive the snapshot as their second argument
  and may change it before it is serialised. Here an option adds the field "extra" to
  the snapshot; the original desired object has no such field, yet the payload has it and
  the merge overwrites it in the stored document.
\<close>

theorem PatchingApplicator_payload_counterexample:
  "APIPatchingApplicator_Apply
       (recording (MockClient (\<lambda>n. Inr example_secret) (\<lambda>m. None) (\<lambda>m. None) (\<lambda>m p. None)))
       (Object example_secret) [option_touch_desired] ((), [])
     = (None, ((), [CallGet (NamespacedName ''ns'' ''creds''),
                    CallPatch example_secret (patch touched_secret)]))
   \<and> example_Marshal example_secret ''extra'' = None
   \<and> patch_Data example_Marshal (patch touched_secret) example_secret ''extra'' = Some ''x''
   \<and> merge_patch (example_Marshal example_secret)
        (patch_Data example_Marshal (patch touched_secret) example_secret) ''extra''
       \<noteq> example_Marshal example_secret ''extra''"
  by (simp add: APIPatchingApplicator_Apply_def example_secret_def touched_secret_def
      option_touch_desired_def example_Marshal_def patch_Data_def merge_patch_def)

text \<open>
  C3, amended. On an object that exists and whose Apply Options all succeed, the patch
  sent is a merge patch whose payload is the serialisation of the snapshot as the options
  left it; it is the serialisation of the original desired object whenever the options
  leave their second argument as it is. Every field absent from that payload keeps its
  stored value under the merge, whatever the stored document holds at that moment.
\<close>

theorem PatchingApplicator_payload:
  assumes "Get c (NamespacedName (Namespace m) (Name m)) s = (Inr current, s1)"
    and "range_ao ao current m = Inr (current', desired')"
    and "Patch c current' (patch desired') s1 = (e, s2)"
  shows "APIPatchingApplicator_Apply (recording c) (Object m) ao (s, calls)
           = (errors_Wrap e ''cannot patch object'',
              (s2, calls @ [CallGet (NamespacedName (Namespace m) (Name m)),
                            CallPatch current' (patch desired')]))
       \<and> patch_Type (patch desired') = MergePatchType
       \<and> patch_Data json_Marshal (patch desired') current' = json_Marshal desired'
       \<and> ((\<forall>fn\<in>set ao. \<forall>cu d cu' d'. fn cu d = Inr (cu', d') \<longrightarrow> d' = d) \<longrightarrow> desired' = m)
       \<and> (\<forall>stored f. f \<notin> dom (json_Marshal desired') \<longrightarrow>
            merge_patch stored (json_Marshal desired') f = stored f)"
proof -
  have run: "APIPatchingApplicator_Apply (recording c) (Object m) ao (s, calls)
           = (errors_Wrap e ''cannot patch object'',
              (s2, calls @ [CallGet (NamespacedName (Namespace m) (Name m)),
                            CallPatch current' (patch desired')]))"
    by (rule Patching_Apply_found [OF assms])
  have payload: "patch_Type (patch desired') = MergePatchType
       \<and> patch_Data json_Marshal (patch desired') current' = json_Marshal desired'"
    by (simp add: patch_Type_def patch_Data_def)
  have same: "(\<forall>fn\<in>set ao. \<forall>cu d cu' d'. fn cu d = Inr (cu', d') \<longrightarrow> d' = d) \<longrightarrow> desired' = m"
    using range_ao_keeps [where f = "\<lambda>d. d", OF _ assms(2)] by blast
  have frame: "\<forall>stored f. f \<notin> dom (json_Marshal desired') \<longrightarrow>
            merge_patch stored (json_Marshal desired') f = stored f"
    by (simp add: merge_patch_def map_add_dom_app_simps)
  from run payload same frame show ?thesis by blast
qed

theorem PatchingApplicator_payload_witness:
  "APIPatchingApplicator_Apply
       (recording (MockClient (\<lambda>n. Inr foreign_secret) (\<lambda>m. None) (\<lambda>m. None) (\<lambda>m p. None)))
       (Object example_secret) [option_touch_current] ((), [])
     = (None, ((), [CallGet (NamespacedName ''ns'' ''creds''),
                    CallPatch (foreign_secret\<lparr>Data := (Data foreign_secret)(''extra'' \<mapsto> ''x'')\<rparr>)
                      (patch example_secret)]))
   \<and> patch_Data example_Marshal (patch example_secret)
        (foreign_secret\<lparr>Data := (Data foreign_secret)(''extra'' \<mapsto> ''x'')\<rparr>)
       = example_Marshal example_secret
   \<and> ''extra'' \<notin> dom (example_Marshal example_secret)
   \<and> merge_patch [''extra'' \<mapsto> ''kept''] (example_Marshal example_secret) ''extra'' = Some ''kept''"
  using PatchingApplicator_payload
    [where c = "MockClient (\<lambda>n. Inr foreign_secret) (\<lambda>m. None) (\<lambda>m. None) (\<lambda>m p. None)"
       and m = example_secret and s = "()" and current = foreign_secret and ?s1.0 = "()"
       and ao = "[option_touch_current]" and desired' = example_secret
       and current' = "foreign_secret\<lparr>Data := (Data foreign_secret)(''extra'' \<mapsto> ''x'')\<rparr>"
       and e = None and ?s2.0 = "()" and calls = "[]" and json_Marshal = example_Marshal]
  by (simp add: example_secret_def foreign_secret_def option_touch_current_def
      example_Marshal_def merge_patch_def)

section \<open>Finalizers and the external name\<close>

text \<open>
  C7. AddFinalizer on a managed resource that already holds the token returns nil, leaves
  the resource as it is and calls the client not at all. After any first call the
  resource holds the token, so a second call with the same token changes neither the
  finalizers nor the store.
\<close>

theorem AddFinalizer_idempotent:
  "(meta_FinalizerExists mg f \<longrightarrow>
      AddFinalizer (NewAPIFinalizer (recording c) f) mg (s, calls) = ((None, mg), (s, calls)))
   \<and> (AddFinalizer (NewAPIFinalizer (recording c) f) mg (s, calls) = ((e1, mg1), (s1, calls1)) \<longrightarrow>
        AddFinalizer (NewAPIFinalizer (recording c) f) mg1 (s1, calls1)
          = ((None, mg1), (s1, calls1)))"
proof (intro conjI impI)
  assume "meta_FinalizerExists mg f"
  then show "AddFinalizer (NewAPIFinalizer (recording c) f) mg (s, calls) = ((None, mg), (s, calls))"
    by (simp add: AddFinalizer_present)
next
  assume first: "AddFinalizer (NewAPIFinalizer (recording c) f) mg (s, calls)
                   = ((e1, mg1), (s1, calls1))"
  from AddFinalizer_leaves_token [OF first] have "meta_FinalizerExists mg1 f" by simp
  then show "AddFinalizer (NewAPIFinalizer (recording c) f) mg1 (s1, calls1)
          = ((None, mg1), (s1, calls1))"
    by (simp add: AddFinalizer_present)
qed

theorem AddFinalizer_idempotent_witness:
  "AddFinalizer (NewAPIFinalizer (recording (MockClient (\<lambda>n. Inr example_managed)
       (\<lambda>m. None) (\<lambda>m. None) (\<lambda>m p. None))) ''finalizer.example.org'')
     (example_managed\<lparr>Finalizers := [''finalizer.example.org'']\<rparr>) ((), [])
   = ((None, example_managed\<lparr>Finalizers := [''finalizer.example.org'']\<rparr>), ((), []))
   \<and> AddFinalizer (NewAPIFinalizer (recording (MockClient (\<lambda>n. Inr example_managed)
       (\<lambda>m. None) (\<lambda>m. None) (\<lambda>m p. None))) ''finalizer.example.org'')
     example_managed ((), [])
   = ((None, example_managed\<lparr>Finalizers := [''finalizer.example.org'']\<rparr>),
      ((), [CallUpdate (example_managed\<lparr>Finalizers := [''finalizer.example.org'']\<rparr>)]))
   \<and> AddFinalizer (NewAPIFinalizer (recording (MockClient (\<lambda>n. Inr example_managed)
       (\<lambda>m. None) (\<lambda>m. None) (\<lambda>m p. None))) ''finalizer.example.org'')
     (example_managed\<lparr>Finalizers := [''finalizer.example.org'']\<rparr>)
     ((), [CallUpdate (example_managed\<lparr>Finalizers := [''finalizer.example.org'']\<rparr>)])
   = ((None, example_managed\<lparr>Finalizers := [''finalizer.example.org'']\<rparr>),
      ((), [CallUpdate (example_managed\<lparr>Finalizers := [''finalizer.example.org'']\<rparr>)]))"
  using AddFinalizer_idempotent
    [where mg = "example_managed\<lparr>Finalizers := [''finalizer.example.org'']\<rparr>"
       and f = "''finalizer.example.org''"
       and c = "MockClient (\<lambda>n. Inr example_managed) (\<lambda>m. None) (\<lambda>m. None) (\<lambda>m p. None)"
       and s = "()" and calls = "[]"]
    AddFinalizer_idempotent
    [where mg = example_managed and f = "''finalizer.example.org''"
       and c = "MockClient (\<lambda>n. Inr example_managed) (\<lambda>m. None) (\<lambda>m. None) (\<lambda>m p. None)"
       and s = "()" and calls = "[]" and ?e1.0 = None
       and ?mg1.0 = "example_managed\<lparr>Finalizers := [''finalizer.example.org'']\<rparr>"
       and ?s1.0 = "()"
       and ?calls1.0 = "[CallUpdate (example_managed\<lparr>Finalizers := [''finalizer.example.org'']\<rparr>)]"]
  by (simp add: example_managed_def AddFinalizer_def meta_FinalizerExists_def
      meta_AddFinalizer_def Let_def)

text \<open>
  C8. RemoveFinalizer takes the token out of the finalizers (nothing changes when it is
  absent) and persists the resource with one update. A not-found answer of that update
  is success; any other error is returned wrapped.
\<close>

theorem RemoveFinalizer_ignores_not_found:
  assumes "Update c (meta_RemoveFinalizer mg f) s = (e, s1)"
  shows "RemoveFinalizer (NewAPIFinalizer (recording c) f) mg (s, calls)
           = (((case e of
                  None \<Rightarrow> None
                | Some err \<Rightarrow> if IsNotFound err then None else Some (Wrap err errUpdateManaged)),
               meta_RemoveFinalizer mg f),
              (s1, calls @ [CallUpdate (meta_RemoveFinalizer mg f)]))
       \<and> set (Finalizers (meta_RemoveFinalizer mg f)) = set (Finalizers mg) - {f}
       \<and> (f \<notin> set (Finalizers mg) \<longrightarrow> meta_RemoveFinalizer mg f = mg)"
proof -
  have run: "RemoveFinalizer (NewAPIFinalizer (recording c) f) mg (s, calls)
           = (((case e of
                  None \<Rightarrow> None
                | Some err \<Rightarrow> if IsNotFound err then None else Some (Wrap err errUpdateManaged)),
               meta_RemoveFinalizer mg f),
              (s1, calls @ [CallUpdate (meta_RemoveFinalizer mg f)]))"
    using assms by (cases e) (simp_all add: RemoveFinalizer_def IgnoreNotFound_def Let_def)
  have removed: "set (Finalizers (meta_RemoveFinalizer mg f)) = set (Finalizers mg) - {f}"
    by (simp add: meta_RemoveFinalizer_def)
  have absent: "f \<notin> set (Finalizers mg) \<longrightarrow> meta_RemoveFinalizer mg f = mg"
    by (simp add: meta_RemoveFinalizer_def)
  from run removed absent show ?thesis by blast
qed

theorem RemoveFinalizer_ignores_not_found_witness:
  "RemoveFinalizer (NewAPIFinalizer (recording (MockClient (\<lambda>n. Inr example_managed)
       (\<lambda>m. None) (\<lambda>m. Some (StatusError StatusReasonNotFound)) (\<lambda>m p. None))) ''b'')
     (example_managed\<lparr>Finalizers := [''a'', ''b'']\<rparr>) ((), [])
   = ((None, example_managed\<lparr>Finalizers := [''a'']\<rparr>),
      ((), [CallUpdate (example_managed\<lparr>Finalizers := [''a'']\<rparr>)]))
   \<and> RemoveFinalizer (NewAPIFinalizer (recording (MockClient (\<lambda>n. Inr example_managed)
       (\<lambda>m. None) (\<lambda>m. Some errBoom) (\<lambda>m p. None))) ''b'')
     example_managed ((), [])
   = ((Some (Wrap errBoom errUpdateManaged), example_managed),
      ((), [CallUpdate example_managed]))"
  using RemoveFinalizer_ignores_not_found
    [where c = "MockClient (\<lambda>n. Inr example_managed)
       (\<lambda>m. None) (\<lambda>m. Some (StatusError StatusReasonNotFound)) (\<lambda>m p. None)"
       and mg = "example_managed\<lparr>Finalizers := [''a'', ''b'']\<rparr>" and f = "''b''"
       and s = "()" and e = "Some (StatusError StatusReasonNotFound)" and ?s1.0 = "()"
       and calls = "[]"]
    RemoveFinalizer_ignores_not_found
    [where c = "MockClient (\<lambda>n. Inr example_managed)
       (\<lambda>m. None) (\<lambda>m. Some errBoom) (\<lambda>m p. None)"
       and mg = example_managed and f = "''b''"
       and s = "()" and e = "Some errBoom" and ?s1.0 = "()" and calls = "[]"]
  by (simp add: example_managed_def meta_RemoveFinalizer_def errBoom_def)

text \<open>
  C9. Initialize on a managed resource with a non-empty external name returns nil, leaves
  the resource as it is and calls the client not at all. With an empty external name it
  sets the annotation to the resource's name and persists the resource with one update.
\<close>

theorem Initialize_external_name:
  "(meta_GetExternalName mg \<noteq> [] \<longrightarrow>
      Initialize (recording c) mg (s, calls) = ((None, mg), (s, calls)))
   \<and> (meta_GetExternalName mg = [] \<longrightarrow>
        Update c (meta_SetExternalName mg (Name mg)) s = (e, s1) \<longrightarrow>
        Initialize (recording c) mg (s, calls)
          = ((errors_Wrap e errUpdateManaged, meta_SetExternalName mg (Name mg)),
             (s1, calls @ [CallUpdate (meta_SetExternalName mg (Name mg))]))
        \<and> meta_GetExternalName (meta_SetExternalName mg (Name mg)) = Name mg)"
  by (simp add: Initialize_def meta_GetExternalName_def meta_SetExternalName_def Let_def)

theorem Initialize_external_name_witness:
  "Initialize (recording (MockClient (\<lambda>n. Inr example_managed)
       (\<lambda>m. None) (\<lambda>m. None) (\<lambda>m p. None)))
     (example_managed\<lparr>Annotations := [AnnotationKeyExternalName \<mapsto> ''ext-7'']\<rparr>) ((), [])
   = ((None, example_managed\<lparr>Annotations := [AnnotationKeyExternalName \<mapsto> ''ext-7'']\<rparr>),
      ((), []))
   \<and> Initialize (recording (MockClient (\<lambda>n. Inr example_managed)
       (\<lambda>m. None) (\<lambda>m. None) (\<lambda>m p. None)))
     example_managed ((), [])
   = ((None, example_managed\<lparr>Annotations := [AnnotationKeyExternalName \<mapsto> ''db-1'']\<rparr>),
      ((), [CallUpdate
              (example_managed\<lparr>Annotations := [AnnotationKeyExternalName \<mapsto> ''db-1'']\<rparr>)]))"
  using Initialize_external_name
    [where mg = "example_managed\<lparr>Annotations := [AnnotationKeyExternalName \<mapsto> ''ext-7'']\<rparr>"
       and c = "MockClient (\<lambda>n. Inr example_managed) (\<lambda>m. None) (\<lambda>m. None) (\<lambda>m p. None)"
       and s = "()" and calls = "[]"]
    Initialize_external_name
    [where mg = example_managed
       and c = "MockClient (\<lambda>n. Inr example_managed) (\<lambda>m. None) (\<lambda>m. None) (\<lambda>m p. None)"
       and s = "()" and calls = "[]" and e = None and ?s1.0 = "()"]
  by (simp add: example_managed_def meta_GetExternalName_def meta_SetExternalName_def)

section \<open>Aborts\<close>




end
